theory Spec2Isabelle
  imports Main
begin

section \<open>The workflow validator of the GitHub Actions MCP server\<close>

text \<open>
  This theory embeds \<^verbatim>\<open>validate_workflow\<close> of
  \<^verbatim>\<open>awslabs/github_actions_mcp_server/helpers.py\<close> (lines 360 to 447). The function
  parses a text with PyYAML's \<^verbatim>\<open>yaml.safe_load\<close> and walks the untyped Python value the
  parser gives back. The walk uses Python's dynamic operations (\<^verbatim>\<open>not x\<close>,
  \<^verbatim>\<open>k in x\<close>, \<^verbatim>\<open>for k in x\<close>, \<^verbatim>\<open>x.get\<close>, \<^verbatim>\<open>x.items\<close>, \<^verbatim>\<open>x[k]\<close>,
  \<^verbatim>\<open>x.startswith\<close>), each of which raises on the types that do not support it. Each
  operation is therefore a function into \<open>exn + 'a\<close>, with \<open>Inl\<close> the raised exception.
\<close>

subsection \<open>Python values built by the safe loader\<close>

text \<open>
  The hashable values: the ones that can be a key of a dict or a member of a set. A str is a
  \<open>string\<close>; emptiness, equality, prefix and substring tests agree between code points
  and their UTF-8 bytes. A float is kept as the two things this code observes of it: whether it
  is nonzero (its truth value) and the text \<^verbatim>\<open>str()\<close> gives; a date and a datetime are
  kept as the text \<^verbatim>\<open>str()\<close> gives.
\<close>

datatype scalar =
    PyNone
  | PyBool bool
  | PyInt int
  | PyFloat bool string
  | PyStr string
  | PyBytes string
  | PyDate string
  | PyDatetime string

text \<open>
  A dict is the list of its items in insertion order; looking a key up takes the first item
  with that key. A dict of the loader has no two items with the same key; no property below
  needs that. Every lookup of the validator is by a str key, and only a str equals a str, so
  the equality of keys is the equality of \<open>scalar\<close>. Tuples only come from
  \<^verbatim>\<open>!!omap\<close> and \<^verbatim>\<open>!!pairs\<close>.
\<close>

datatype yval =
    Scalar scalar
  | PyList "yval list"
  | PyTuple "yval list"
  | PyDict "(scalar \<times> yval) list"
  | PySet "scalar list"

text \<open>
  The exceptions, all subclasses of \<^verbatim>\<open>Exception\<close>, each with the text of
  \<^verbatim>\<open>str(e)\<close>. \<open>ValueError\<close> is the exception of an f-string that cannot
  convert an int. \<open>OtherException\<close> is any exception of the parser that is not a
  \<^verbatim>\<open>yaml.YAMLError\<close> (its own \<^verbatim>\<open>ValueError\<close> for a timestamp out of
  range, a \<^verbatim>\<open>RecursionError\<close>); both reach the second handler. The texts of the interpreter's own exceptions are worded as
  CPython 3.11 and 3.12 word them; no property below depends on the wording.
\<close>

datatype exn =
    YAMLError string
  | TypeError string
  | AttributeError string
  | KeyError string
  | ValueError string
  | OtherException string

fun exn_str :: "exn \<Rightarrow> string" where
  "exn_str (YAMLError m) = m"
| "exn_str (TypeError m) = m"
| "exn_str (AttributeError m) = m"
| "exn_str (KeyError m) = m"
| "exn_str (ValueError m) = m"
| "exn_str (OtherException m) = m"

definition quoted :: "string \<Rightarrow> string" where
  "quoted s = CHR 0x27 # s @ [CHR 0x27]"

fun scalar_type_name :: "scalar \<Rightarrow> string" where
  "scalar_type_name PyNone = ''NoneType''"
| "scalar_type_name (PyBool b) = ''bool''"
| "scalar_type_name (PyInt i) = ''int''"
| "scalar_type_name (PyFloat nz t) = ''float''"
| "scalar_type_name (PyStr s) = ''str''"
| "scalar_type_name (PyBytes b) = ''bytes''"
| "scalar_type_name (PyDate t) = ''datetime.date''"
| "scalar_type_name (PyDatetime t) = ''datetime.datetime''"

fun type_name :: "yval \<Rightarrow> string" where
  "type_name (Scalar k) = scalar_type_name k"
| "type_name (PyList xs) = ''list''"
| "type_name (PyTuple xs) = ''tuple''"
| "type_name (PyDict kvs) = ''dict''"
| "type_name (PySet ks) = ''set''"

definition no_attribute :: "yval \<Rightarrow> string \<Rightarrow> exn" where
  "no_attribute v a =
     AttributeError (quoted (type_name v) @ '' object has no attribute '' @ quoted a)"

subsection \<open>The Python operations the validator uses\<close>

text \<open>\<^verbatim>\<open>bool(v)\<close>, the test behind \<^verbatim>\<open>not v\<close> and \<^verbatim>\<open>if v\<close>.\<close>

fun py_truthy :: "yval \<Rightarrow> bool" where
  "py_truthy (Scalar PyNone) = False"
| "py_truthy (Scalar (PyBool b)) = b"
| "py_truthy (Scalar (PyInt i)) = (i \<noteq> 0)"
| "py_truthy (Scalar (PyFloat nz t)) = nz"
| "py_truthy (Scalar (PyStr s)) = (s \<noteq> [])"
| "py_truthy (Scalar (PyBytes b)) = (b \<noteq> [])"
| "py_truthy (Scalar (PyDate t)) = True"
| "py_truthy (Scalar (PyDatetime t)) = True"
| "py_truthy (PyList xs) = (xs \<noteq> [])"
| "py_truthy (PyTuple xs) = (xs \<noteq> [])"
| "py_truthy (PyDict kvs) = (kvs \<noteq> [])"
| "py_truthy (PySet ks) = (ks \<noteq> [])"

text \<open>\<^verbatim>\<open>s.startswith(p)\<close> and \<^verbatim>\<open>p in s\<close> on two strs.\<close>

fun startswith :: "string \<Rightarrow> string \<Rightarrow> bool" where
  "startswith s [] = True"
| "startswith [] (p # ps) = False"
| "startswith (c # s) (p # ps) = (c = p \<and> startswith s ps)"

fun str_contains :: "string \<Rightarrow> string \<Rightarrow> bool" where
  "str_contains p [] = (p = [])"
| "str_contains p (c # s) = (startswith (c # s) p \<or> str_contains p s)"

text \<open>
  \<^verbatim>\<open>k in v\<close> for a str \<open>k\<close>: a substring test on a str, a membership test by equality on
  a list, a tuple, the keys of a dict and a set (only a str equals a str), and a
  \<^verbatim>\<open>TypeError\<close> on everything else.
\<close>

fun py_contains :: "string \<Rightarrow> yval \<Rightarrow> exn + bool" where
  "py_contains k (Scalar (PyStr s)) = Inr (str_contains k s)"
| "py_contains k (Scalar (PyBytes b)) =
     Inl (TypeError (''a bytes-like object is required, not '' @ quoted ''str''))"
| "py_contains k (Scalar c) =
     Inl (TypeError (''argument of type '' @ quoted (scalar_type_name c) @ '' is not iterable''))"
| "py_contains k (PyList xs) = Inr (Scalar (PyStr k) \<in> set xs)"
| "py_contains k (PyTuple xs) = Inr (Scalar (PyStr k) \<in> set xs)"
| "py_contains k (PyDict kvs) = Inr (PyStr k \<in> set (map fst kvs))"
| "py_contains k (PySet ks) = Inr (PyStr k \<in> set ks)"

text \<open>
  The items \<^verbatim>\<open>for x in v\<close> runs over: the characters of a str (one-element strings;
  here one per byte, in Python one per code point, and in both no item is \<^verbatim>\<open>True\<close>,
  \<^verbatim>\<open>'on'\<close> or a mapping), the byte values of a bytes, the members of a list, a tuple or
  a set, the keys of a dict.
\<close>

fun py_iter :: "yval \<Rightarrow> exn + yval list" where
  "py_iter (Scalar (PyStr s)) = Inr (map (\<lambda>c. Scalar (PyStr [c])) s)"
| "py_iter (Scalar (PyBytes b)) = Inr (map (\<lambda>c. Scalar (PyInt (of_char c))) b)"
| "py_iter (Scalar c) =
     Inl (TypeError (quoted (scalar_type_name c) @ '' object is not iterable''))"
| "py_iter (PyList xs) = Inr xs"
| "py_iter (PyTuple xs) = Inr xs"
| "py_iter (PyDict kvs) = Inr (map (\<lambda>kv. Scalar (fst kv)) kvs)"
| "py_iter (PySet ks) = Inr (map Scalar ks)"

text \<open>\<^verbatim>\<open>v.get(k, d)\<close> and \<^verbatim>\<open>v.items()\<close>: methods of a dict only.\<close>

fun py_get :: "yval \<Rightarrow> string \<Rightarrow> yval \<Rightarrow> exn + yval" where
  "py_get (PyDict kvs) k d = Inr (case map_of kvs (PyStr k) of Some v \<Rightarrow> v | None \<Rightarrow> d)"
| "py_get v k d = Inl (no_attribute v ''get'')"

fun py_items :: "yval \<Rightarrow> exn + (scalar \<times> yval) list" where
  "py_items (PyDict kvs) = Inr kvs"
| "py_items v = Inl (no_attribute v ''items'')"

text \<open>\<^verbatim>\<open>v[k]\<close> for a str \<open>k\<close>.\<close>

fun py_getitem :: "yval \<Rightarrow> string \<Rightarrow> exn + yval" where
  "py_getitem (PyDict kvs) k =
     (case map_of kvs (PyStr k) of Some v \<Rightarrow> Inr v | None \<Rightarrow> Inl (KeyError (quoted k)))"
| "py_getitem (Scalar (PyStr s)) k =
     Inl (TypeError (''string indices must be integers, not '' @ quoted ''str''))"
| "py_getitem (Scalar (PyBytes b)) k =
     Inl (TypeError ''byte indices must be integers or slices, not str'')"
| "py_getitem (PyList xs) k =
     Inl (TypeError ''list indices must be integers or slices, not str'')"
| "py_getitem (PyTuple xs) k =
     Inl (TypeError ''tuple indices must be integers or slices, not str'')"
| "py_getitem v k = Inl (TypeError (quoted (type_name v) @ '' object is not subscriptable''))"

text \<open>\<^verbatim>\<open>v.startswith(p)\<close> for a str \<open>p\<close>.\<close>

fun py_startswith :: "yval \<Rightarrow> string \<Rightarrow> exn + bool" where
  "py_startswith (Scalar (PyStr s)) p = Inr (startswith s p)"
| "py_startswith (Scalar (PyBytes b)) p =
     Inl (TypeError ''startswith first arg must be bytes or a tuple of bytes, not str'')"
| "py_startswith v p = Inl (no_attribute v ''startswith'')"

subsection \<open>Formatting a key in an f-string\<close>

definition digit_char :: "nat \<Rightarrow> char" where
  "digit_char d = ''0123456789abcdef'' ! d"

fun show_nat :: "nat \<Rightarrow> string" where
  "show_nat n = (if n < 10 then [digit_char n] else show_nat (n div 10) @ [digit_char (n mod 10)])"

definition show_int :: "int \<Rightarrow> string" where
  "show_int i = (if i < 0 then CHR ''-'' # show_nat (nat (- i)) else show_nat (nat i))"

text \<open>
  The repr of a bytes: \<^verbatim>\<open>b'...'\<close>, in double quotes when the bytes hold a single quote and
  no double quote, with the quote and the backslash escaped, tab, newline and carriage return
  as \<^verbatim>\<open>\t\<close>, \<^verbatim>\<open>\n\<close>, \<^verbatim>\<open>\r\<close>, and every other byte outside the printable ASCII
  range as \<^verbatim>\<open>\xNN\<close>.
\<close>

definition bytes_quote :: "string \<Rightarrow> char" where
  "bytes_quote b = (if CHR 0x27 \<in> set b \<and> CHR 0x22 \<notin> set b then CHR 0x22 else CHR 0x27)"

definition byte_repr :: "char \<Rightarrow> char \<Rightarrow> string" where
  "byte_repr q c =
     (if c = q \<or> c = CHR 0x5C then [CHR 0x5C, c]
      else if c = CHR 0x09 then [CHR 0x5C, CHR ''t'']
      else if c = CHR 0x0A then [CHR 0x5C, CHR ''n'']
      else if c = CHR 0x0D then [CHR 0x5C, CHR ''r'']
      else if (of_char c :: nat) < 0x20 \<or> 0x7F \<le> (of_char c :: nat)
        then [CHR 0x5C, CHR ''x'', digit_char (of_char c div 16), digit_char (of_char c mod 16)]
      else [c])"

definition bytes_repr :: "string \<Rightarrow> string" where
  "bytes_repr b = CHR ''b'' # bytes_quote b # concat (map (byte_repr (bytes_quote b)) b) @ [bytes_quote b]"

text \<open>
  CPython 3.11 and later refuse to convert an int of more than 4300 decimal digits to a str and
  raise a \<^verbatim>\<open>ValueError\<close>, unless \<^verbatim>\<open>sys.set_int_max_str_digits\<close> changed the
  limit, which nothing in the repository does. The sign is not counted. The loader builds such
  an int from a hexadecimal, octal or binary key.
\<close>

definition int_max_str_digits :: nat where
  "int_max_str_digits = 4300"

text \<open>
  What \<^verbatim>\<open>f'{job_id}'\<close> puts into the string, or the exception the conversion raises.
\<close>

fun py_str :: "scalar \<Rightarrow> exn + string" where
  "py_str PyNone = Inr ''None''"
| "py_str (PyBool b) = Inr (if b then ''True'' else ''False'')"
| "py_str (PyInt i) =
     (if 10 ^ int_max_str_digits \<le> abs i
      then Inl (ValueError (''Exceeds the limit (4300 digits) for integer string conversion; ''
             @ ''use sys.set_int_max_str_digits() to increase the limit''))
      else Inr (show_int i))"
| "py_str (PyFloat nz t) = Inr t"
| "py_str (PyStr s) = Inr s"
| "py_str (PyBytes b) = Inr (bytes_repr b)"
| "py_str (PyDate t) = Inr t"
| "py_str (PyDatetime t) = Inr t"

subsection \<open>The report\<close>

text \<open>The dict with the keys \<^verbatim>\<open>'valid'\<close>, \<^verbatim>\<open>'warnings'\<close> and \<^verbatim>\<open>'suggestions'\<close>.\<close>

record report =
  valid :: bool
  warnings :: "string list"
  suggestions :: "string list"

definition append_warning :: "string \<Rightarrow> report \<Rightarrow> report" where
  "append_warning w r = r\<lparr>warnings := warnings r @ [w]\<rparr>"

definition append_suggestion :: "string \<Rightarrow> report \<Rightarrow> report" where
  "append_suggestion s r = r\<lparr>suggestions := suggestions r @ [s]\<rparr>"

subsection \<open>The loops of the validator\<close>

text \<open>
  Lines 390 to 394: \<^verbatim>\<open>has_on\<close> after the loop over the keys, which stops at the first key
  that is the object \<^verbatim>\<open>True\<close> or equals \<^verbatim>\<open>'on'\<close>.
\<close>

fun has_on :: "yval list \<Rightarrow> bool" where
  "has_on [] = False"
| "has_on (key # rest) =
     (if key = Scalar (PyBool True) \<or> key = Scalar (PyStr ''on'') then True else has_on rest)"

text \<open>
  \<^verbatim>\<open>validation_results['warnings'].append(f'...{job_id}')\<close> of lines 408, 412 and 415,
  with the text before the job id as \<open>label\<close>: the f-string is built first, and nothing is
  appended when building it raises.
\<close>

definition warn_job :: "string \<Rightarrow> scalar \<Rightarrow> report \<Rightarrow> exn + report" where
  "warn_job label job_id r =
     (case py_str job_id of
        Inl e \<Rightarrow> Inl e
      | Inr text \<Rightarrow> Inr (append_warning (label @ text) r))"

text \<open>
  Lines 407 to 415: the body of the loop over the jobs, for one item, appending to the warnings
  of the report it is given. The \<^verbatim>\<open>continue\<close> ends the body after the first warning.
\<close>

definition check_job :: "scalar \<Rightarrow> yval \<Rightarrow> report \<Rightarrow> exn + report" where
  "check_job job_id job r =
     (if \<not> py_truthy job
      then warn_job ''Empty job: '' job_id r
      else
        (case py_contains ''runs-on'' job of
           Inl e \<Rightarrow> Inl e
         | Inr has_runs_on \<Rightarrow>
             (case (if \<not> has_runs_on
                    then warn_job ''Missing runs-on in job: '' job_id r
                    else Inr r) of
                Inl e \<Rightarrow> Inl e
              | Inr r1 \<Rightarrow>
                  (case py_contains ''steps'' job of
                     Inl e \<Rightarrow> Inl e
                   | Inr has_steps \<Rightarrow>
                       if \<not> has_steps
                       then warn_job ''Missing steps in job: '' job_id r1
                       else Inr r1))))"

text \<open>Lines 406 to 415: the loop over the items of the jobs, in their order.\<close>

fun check_jobs :: "(scalar \<times> yval) list \<Rightarrow> report \<Rightarrow> exn + report" where
  "check_jobs [] r = Inr r"
| "check_jobs ((job_id, job) # rest) r =
     (case check_job job_id job r of
        Inl e \<Rightarrow> Inl e
      | Inr r' \<Rightarrow> check_jobs rest r')"

text \<open>
  Lines 422 to 425: the loop over the steps of one job; the value is \<^verbatim>\<open>has_checkout\<close>
  when the loop ends, by the \<^verbatim>\<open>break\<close> or at the end of the steps.
\<close>

fun steps_have_checkout :: "yval list \<Rightarrow> exn + bool" where
  "steps_have_checkout [] = Inr False"
| "steps_have_checkout (step # rest) =
     (case py_get step ''uses'' (Scalar (PyStr [])) of
        Inl e \<Rightarrow> Inl e
      | Inr uses \<Rightarrow>
          (case py_startswith uses ''actions/checkout@'' of
             Inl e \<Rightarrow> Inl e
           | Inr b \<Rightarrow> if b then Inr True else steps_have_checkout rest))"

text \<open>Lines 421 to 427: the loop over the jobs, left as soon as a checkout step is found.\<close>

fun jobs_have_checkout :: "(scalar \<times> yval) list \<Rightarrow> exn + bool" where
  "jobs_have_checkout [] = Inr False"
| "jobs_have_checkout ((job_id, job) # rest) =
     (case py_get job ''steps'' (PyList []) of
        Inl e \<Rightarrow> Inl e
      | Inr steps \<Rightarrow>
          (case py_iter steps of
             Inl e \<Rightarrow> Inl e
           | Inr step_list \<Rightarrow>
               (case steps_have_checkout step_list of
                  Inl e \<Rightarrow> Inl e
                | Inr has_checkout \<Rightarrow>
                    if has_checkout then Inr True else jobs_have_checkout rest)))"

subsection \<open>The validator\<close>

text \<open>Lines 417 to 434: the best-practice check and the return that follows it.\<close>

definition check_best_practices :: "yval \<Rightarrow> report \<Rightarrow> exn + report" where
  "check_best_practices yaml_content r =
     (case py_get yaml_content ''jobs'' (Scalar PyNone) of
        Inl e \<Rightarrow> Inl e
      | Inr jobs \<Rightarrow>
          if py_truthy jobs
          then
            (case py_getitem yaml_content ''jobs'' of
               Inl e \<Rightarrow> Inl e
             | Inr jobs' \<Rightarrow>
                 (case py_items jobs' of
                    Inl e \<Rightarrow> Inl e
                  | Inr job_items \<Rightarrow>
                      (case jobs_have_checkout job_items of
                         Inl e \<Rightarrow> Inl e
                       | Inr has_checkout \<Rightarrow>
                           Inr (if \<not> has_checkout
                                then append_suggestion
                                  ''Consider adding actions/checkout step to access repository files'' r
                                else r))))
          else Inr r)"

text \<open>Lines 405 to 434: the jobs check, then the best-practice check.\<close>

definition check_jobs_section :: "yval \<Rightarrow> report \<Rightarrow> exn + report" where
  "check_jobs_section yaml_content r =
     (case py_get yaml_content ''jobs'' (PyDict []) of
        Inl e \<Rightarrow> Inl e
      | Inr jobs \<Rightarrow>
          (case py_items jobs of
             Inl e \<Rightarrow> Inl e
           | Inr job_items \<Rightarrow>
               (case check_jobs job_items r of
                  Inl e \<Rightarrow> Inl e
                | Inr r' \<Rightarrow> check_best_practices yaml_content r')))"

text \<open>
  Lines 374 to 434: the body of the \<^verbatim>\<open>try\<close> after the parse, on the parsed value. \<open>Inl\<close>
  is an exception raised inside the \<^verbatim>\<open>try\<close>, \<open>Inr\<close> a report returned from it.
\<close>

definition check_document :: "yval \<Rightarrow> exn + report" where
  "check_document yaml_content =
     (let validation_results = \<lparr>valid = True, warnings = [], suggestions = []\<rparr> in
      if \<not> py_truthy yaml_content
      then Inr (append_warning ''Empty workflow file'' (validation_results\<lparr>valid := False\<rparr>))
      else
        (case py_contains ''name'' yaml_content of
           Inl e \<Rightarrow> Inl e
         | Inr has_name \<Rightarrow>
             (let r1 = (if \<not> has_name
                        then append_warning ''Missing workflow name'' validation_results
                        else validation_results)
              in case py_iter yaml_content of
                   Inl e \<Rightarrow> Inl e
                 | Inr keys \<Rightarrow>
                     (let r2 = (if \<not> has_on keys
                                then append_warning ''Missing trigger events (on:)''
                                       (r1\<lparr>valid := False\<rparr>)
                                else r1)
                      in case py_contains ''jobs'' yaml_content of
                           Inl e \<Rightarrow> Inl e
                         | Inr has_jobs \<Rightarrow>
                             if \<not> has_jobs
                             then Inr (append_warning ''Missing jobs section''
                                         (r2\<lparr>valid := False\<rparr>))
                             else check_jobs_section yaml_content r2))))"

text \<open>
  The whole function. \<^verbatim>\<open>yaml.safe_load\<close> belongs to PyYAML, not to this repository, so
  the model takes what \<^verbatim>\<open>yaml.safe_load(content)\<close> did as its argument: \<open>Inl e\<close>
  when the parser raised \<open>e\<close>, \<open>Inr v\<close> when it returned \<open>v\<close>. The result is
  \<open>Inl e\<close> when the call raises \<open>e\<close> to its caller and \<open>Inr r\<close> when it returns
  \<open>r\<close>. The two handlers (lines 435 to 447) are tried in order; the second also writes a
  line to the log, which is not part of the result.
\<close>

definition validate_workflow :: "exn + yval \<Rightarrow> exn + report" where
  "validate_workflow loaded =
     (case (case loaded of Inl e \<Rightarrow> Inl e | Inr yaml_content \<Rightarrow> check_document yaml_content) of
        Inr validation_results \<Rightarrow> Inr validation_results
      | Inl (YAMLError m) \<Rightarrow>
          Inr \<lparr>valid = False,
               warnings = [''Invalid YAML: '' @ exn_str (YAMLError m)],
               suggestions = []\<rparr>
      | Inl e \<Rightarrow>
          Inr \<lparr>valid = False,
               warnings = [''Validation error: '' @ exn_str e],
               suggestions = []\<rparr>)"

section \<open>Vocabulary of the properties\<close>

text \<open>
  Whether an exception is a \<^verbatim>\<open>yaml.YAMLError\<close>, the class the first handler catches.
\<close>

fun is_yaml_error :: "exn \<Rightarrow> bool" where
  "is_yaml_error (YAMLError m) = True"
| "is_yaml_error e = False"

text \<open>
  The report after lines 374 to 398 on a mapping with the items \<open>kvs\<close>: the name check and
  the trigger check, before the jobs are looked at.
\<close>

definition initial_report :: report where
  "initial_report = \<lparr>valid = True, warnings = [], suggestions = []\<rparr>"

definition header_report :: "(scalar \<times> yval) list \<Rightarrow> report" where
  "header_report kvs =
     (let r1 = (if PyStr ''name'' \<notin> fst ` set kvs
                then append_warning ''Missing workflow name'' initial_report
                else initial_report)
      in if PyBool True \<notin> fst ` set kvs \<and> PyStr ''on'' \<notin> fst ` set kvs
         then append_warning ''Missing trigger events (on:)'' (r1\<lparr>valid := False\<rparr>)
         else r1)"

text \<open>
  The specification's words for the best-practice scan (section 4.1, step 7): a checkout step
  is a step, a mapping, whose \<^verbatim>\<open>uses\<close> field is a string starting with
  \<^verbatim>\<open>actions/checkout@\<close>; the steps of a job are the members of the sequence under its
  \<^verbatim>\<open>steps\<close> key, and none when the key is missing. These two definitions follow the
  specification, not the code; \<open>steps_have_checkout\<close> and \<open>jobs_have_checkout\<close> above
  are the code.
\<close>

fun is_checkout_step :: "yval \<Rightarrow> bool" where
  "is_checkout_step (PyDict skvs) =
     (case map_of skvs (PyStr ''uses'') of
        Some (Scalar (PyStr u)) \<Rightarrow> startswith u ''actions/checkout@''
      | _ \<Rightarrow> False)"
| "is_checkout_step v = False"

fun job_steps :: "yval \<Rightarrow> yval list" where
  "job_steps (PyDict jkvs) =
     (case map_of jkvs (PyStr ''steps'') of
        Some (PyList xs) \<Rightarrow> xs
      | Some (PyTuple xs) \<Rightarrow> xs
      | _ \<Rightarrow> [])"
| "job_steps v = []"

text \<open>
  The warnings of the top-level checks on a mapping with the items \<open>kvs\<close> when a jobs
  section follows (section 4.1, steps 3 and 4), in their order.
\<close>

definition top_level_warnings :: "(scalar \<times> yval) list \<Rightarrow> string list" where
  "top_level_warnings kvs =
     (if PyStr ''name'' \<notin> fst ` set kvs then [''Missing workflow name''] else [])
     @ (if PyStr ''on'' \<notin> fst ` set kvs \<and> PyBool True \<notin> fst ` set kvs
        then [''Missing trigger events (on:)''] else [])"

text \<open>
  The text a warning shows for a job id, and the warnings of one item of the jobs (section
  4.1, step 6, with the two checks of a non-empty job made one after the other): the one
  warning of an empty job, and for any other job the warning of a missing
  \<^verbatim>\<open>runs-on\<close> followed by the warning of a missing \<^verbatim>\<open>steps\<close>, each when
  \<^verbatim>\<open>in\<close> says that the key is not in the job.
\<close>

definition job_id_text :: "scalar \<Rightarrow> string" where
  "job_id_text job_id = (case py_str job_id of Inr text \<Rightarrow> text | Inl e \<Rightarrow> [])"

definition job_warnings :: "scalar \<times> yval \<Rightarrow> string list" where
  "job_warnings item =
     (if \<not> py_truthy (snd item)
      then [''Empty job: '' @ job_id_text (fst item)]
      else
        (if py_contains ''runs-on'' (snd item) = Inr False
         then [''Missing runs-on in job: '' @ job_id_text (fst item)] else [])
        @ (if py_contains ''steps'' (snd item) = Inr False
           then [''Missing steps in job: '' @ job_id_text (fst item)] else []))"

text \<open>The items of a mapping with every key \<^verbatim>\<open>'on'\<close> replaced by \<^verbatim>\<open>True\<close>.\<close>

definition on_as_true :: "(scalar \<times> yval) list \<Rightarrow> (scalar \<times> yval) list" where
  "on_as_true kvs =
     map (\<lambda>kv. (if fst kv = PyStr ''on'' then PyBool True else fst kv, snd kv)) kvs"

subsection \<open>Example documents\<close>

text \<open>
  Each document is given as the value the safe loader builds from the YAML text quoted with it.
  A bare \<^verbatim>\<open>on:\<close> key is loaded as the key \<^verbatim>\<open>True\<close>.
\<close>

abbreviation Str :: "string \<Rightarrow> yval" where
  "Str s \<equiv> Scalar (PyStr s)"

text \<open>
  The example of the specification (section 8):
  \<^verbatim>\<open>name: CI / on: {push: {branches: [main]}} / jobs: {build: {runs-on: ubuntu-latest,
  steps: [{uses: actions/checkout@v3}, {run: echo hi}]}}\<close>.
\<close>

definition doc_ci :: yval where
  "doc_ci = PyDict
     [(PyStr ''name'', Str ''CI''),
      (PyBool True, PyDict [(PyStr ''push'', PyDict [(PyStr ''branches'', PyList [Str ''main''])])]),
      (PyStr ''jobs'', PyDict
         [(PyStr ''build'', PyDict
             [(PyStr ''runs-on'', Str ''ubuntu-latest''),
              (PyStr ''steps'', PyList
                 [PyDict [(PyStr ''uses'', Str ''actions/checkout@v3'')],
                  PyDict [(PyStr ''run'', Str ''echo hi'')]])])])]"

text \<open>The same document without the checkout step.\<close>

definition doc_no_checkout :: yval where
  "doc_no_checkout = PyDict
     [(PyStr ''name'', Str ''CI''),
      (PyBool True, PyDict [(PyStr ''push'', PyDict [(PyStr ''branches'', PyList [Str ''main''])])]),
      (PyStr ''jobs'', PyDict
         [(PyStr ''build'', PyDict
             [(PyStr ''runs-on'', Str ''ubuntu-latest''),
              (PyStr ''steps'', PyList [PyDict [(PyStr ''run'', Str ''echo hi'')]])])])]"

text \<open>\<^verbatim>\<open>name: CI / on: push / jobs: build\<close>: the jobs are a string, not a mapping.\<close>

definition doc_jobs_text :: yval where
  "doc_jobs_text = PyDict
     [(PyStr ''name'', Str ''CI''), (PyBool True, Str ''push''), (PyStr ''jobs'', Str ''build'')]"

text \<open>\<^verbatim>\<open>jobs: build\<close> alone: no name, no trigger, and jobs that are a string.\<close>

definition doc_only_jobs_text :: yval where
  "doc_only_jobs_text = PyDict [(PyStr ''jobs'', Str ''build'')]"

text \<open>
  \<^verbatim>\<open>name: CI / on: push / jobs: {build: {timeout-minutes: 5}}\<close>: a job with neither
  \<^verbatim>\<open>runs-on\<close> nor \<^verbatim>\<open>steps\<close>.
\<close>

definition doc_bare_job :: yval where
  "doc_bare_job = PyDict
     [(PyStr ''name'', Str ''CI''), (PyBool True, Str ''push''),
      (PyStr ''jobs'', PyDict
         [(PyStr ''build'', PyDict [(PyStr ''timeout-minutes'', Scalar (PyInt 5))])])]"

text \<open>The same with a second job, \<^verbatim>\<open>deploy: hello\<close>, that is a string.\<close>

definition doc_bare_and_text_job :: yval where
  "doc_bare_and_text_job = PyDict
     [(PyStr ''name'', Str ''CI''), (PyBool True, Str ''push''),
      (PyStr ''jobs'', PyDict
         [(PyStr ''build'', PyDict [(PyStr ''timeout-minutes'', Scalar (PyInt 5))]),
          (PyStr ''deploy'', Str ''hello'')])]"

text \<open>
  \<^verbatim>\<open>name: CI / on: push / jobs: {lint: {runs-on: ubuntu-latest, steps: [{uses:
  actions/checkout@v4}]}, build: {steps: [{run: make}]}}\<close>: the second job has steps and no
  \<^verbatim>\<open>runs-on\<close>.
\<close>

definition doc_two_jobs :: yval where
  "doc_two_jobs = PyDict
     [(PyStr ''name'', Str ''CI''), (PyBool True, Str ''push''),
      (PyStr ''jobs'', PyDict
         [(PyStr ''lint'', PyDict
             [(PyStr ''runs-on'', Str ''ubuntu-latest''),
              (PyStr ''steps'', PyList [PyDict [(PyStr ''uses'', Str ''actions/checkout@v4'')]])]),
          (PyStr ''build'', PyDict
             [(PyStr ''steps'', PyList [PyDict [(PyStr ''run'', Str ''make'')]])])])]"

text \<open>
  \<^verbatim>\<open>name: CI / on: push / jobs: {build: }\<close>: a job with nothing under it, loaded as
  \<^verbatim>\<open>None\<close>.
\<close>

definition doc_null_job :: yval where
  "doc_null_job = PyDict
     [(PyStr ''name'', Str ''CI''), (PyBool True, Str ''push''),
      (PyStr ''jobs'', PyDict [(PyStr ''build'', Scalar PyNone)])]"

text \<open>The same without the name.\<close>

definition doc_unnamed_null_job :: yval where
  "doc_unnamed_null_job = PyDict
     [(PyBool True, Str ''push''), (PyStr ''jobs'', PyDict [(PyStr ''build'', Scalar PyNone)])]"

text \<open>\<^verbatim>\<open>name: CI / on: push / jobs: {build: hello}\<close>: a job that is a string.\<close>

definition doc_text_job :: yval where
  "doc_text_job = PyDict
     [(PyStr ''name'', Str ''CI''), (PyBool True, Str ''push''),
      (PyStr ''jobs'', PyDict [(PyStr ''build'', Str ''hello'')])]"

text \<open>\<^verbatim>\<open>description: demo\<close>: no name, no trigger events, no jobs.\<close>

definition doc_description_only :: yval where
  "doc_description_only = PyDict [(PyStr ''description'', Str ''demo'')]"

lemmas validator_defs =
  validate_workflow_def check_document_def check_jobs_section_def check_best_practices_def
  check_job_def warn_job_def append_warning_def append_suggestion_def no_attribute_def

section \<open>Lemmas about the checks\<close>

subsection \<open>The checks raise no parser error\<close>

lemma py_contains_raises: "py_contains k v = Inl e \<Longrightarrow> \<not> is_yaml_error e"
  by (induction k v rule: py_contains.induct) auto

lemma py_iter_raises: "py_iter v = Inl e \<Longrightarrow> \<not> is_yaml_error e"
  by (induction v rule: py_iter.induct) auto

lemma py_get_raises: "py_get v k d = Inl e \<Longrightarrow> \<not> is_yaml_error e"
  by (induction v k d rule: py_get.induct) (auto simp: no_attribute_def)

lemma py_items_raises: "py_items v = Inl e \<Longrightarrow> \<not> is_yaml_error e"
  by (induction v rule: py_items.induct) (auto simp: no_attribute_def)

lemma py_getitem_raises: "py_getitem v k = Inl e \<Longrightarrow> \<not> is_yaml_error e"
  by (induction v k rule: py_getitem.induct) (auto split: option.splits)

lemma py_startswith_raises: "py_startswith v p = Inl e \<Longrightarrow> \<not> is_yaml_error e"
  by (induction v p rule: py_startswith.induct) (auto simp: no_attribute_def)

lemma py_str_raises: "py_str k = Inl e \<Longrightarrow> \<not> is_yaml_error e"
  by (cases k) (auto split: if_splits)

lemma warn_job_raises: "warn_job label job_id r = Inl e \<Longrightarrow> \<not> is_yaml_error e"
  unfolding warn_job_def
  by (auto split: sum.splits dest: py_str_raises)

lemma check_job_raises: "check_job job_id job r = Inl e \<Longrightarrow> \<not> is_yaml_error e"
  unfolding check_job_def
  by (auto split: if_splits sum.splits dest: py_contains_raises warn_job_raises)

lemma check_jobs_raises: "check_jobs js r = Inl e \<Longrightarrow> \<not> is_yaml_error e"
  by (induction js r rule: check_jobs.induct)
     (auto split: sum.splits dest: check_job_raises)

lemma steps_have_checkout_raises: "steps_have_checkout xs = Inl e \<Longrightarrow> \<not> is_yaml_error e"
  by (induction xs) (auto split: sum.splits if_splits dest: py_get_raises py_startswith_raises)

lemma jobs_have_checkout_raises: "jobs_have_checkout js = Inl e \<Longrightarrow> \<not> is_yaml_error e"
  by (induction js rule: jobs_have_checkout.induct)
     (auto split: sum.splits if_splits
        dest: py_get_raises py_iter_raises steps_have_checkout_raises)

lemma check_best_practices_raises: "check_best_practices d r = Inl e \<Longrightarrow> \<not> is_yaml_error e"
  unfolding check_best_practices_def
  by (auto split: sum.splits if_splits
      dest: py_get_raises py_getitem_raises py_items_raises jobs_have_checkout_raises)

lemma check_jobs_section_raises: "check_jobs_section d r = Inl e \<Longrightarrow> \<not> is_yaml_error e"
  unfolding check_jobs_section_def
  by (auto split: sum.splits
      dest: py_get_raises py_items_raises check_jobs_raises check_best_practices_raises)

lemma check_document_raises: "check_document d = Inl e \<Longrightarrow> \<not> is_yaml_error e"
  unfolding check_document_def Let_def
  by (auto split: sum.splits if_splits
      dest: py_contains_raises py_iter_raises check_jobs_section_raises)

text \<open>So an exception of the checks always reaches the second handler.\<close>

lemma validate_workflow_handler:
  "validate_workflow (Inr d) =
     (case check_document d of
        Inr r \<Rightarrow> Inr r
      | Inl e \<Rightarrow>
          Inr \<lparr>valid = False, warnings = [''Validation error: '' @ exn_str e],
               suggestions = []\<rparr>)"
  unfolding validate_workflow_def
  by (auto split: sum.splits exn.splits dest: check_document_raises)

subsection \<open>What the loop over the jobs changes\<close>

lemma has_on_iff:
  "has_on keys = (Scalar (PyBool True) \<in> set keys \<or> Scalar (PyStr ''on'') \<in> set keys)"
  by (induction keys) auto

lemma has_on_keys:
  "has_on (map (\<lambda>kv. Scalar (fst kv)) kvs) =
     (PyBool True \<in> fst ` set kvs \<or> PyStr ''on'' \<in> fst ` set kvs)"
  by (auto simp: has_on_iff)

text \<open>When a warning is appended for a job, the text of its id is the one of the f-string.\<close>

lemma warn_job_Inr:
  assumes "warn_job label job_id r = Inr r'"
  shows "py_str job_id = Inr (job_id_text job_id)"
    and "r' = r\<lparr>warnings := warnings r @ [label @ job_id_text job_id]\<rparr>"
  using assms unfolding warn_job_def job_id_text_def append_warning_def
  by (auto split: sum.splits)

text \<open>What the body of the loop, and the loop, leave when they raise nothing.\<close>

lemma check_job_exact:
  assumes "check_job job_id job r = Inr r'"
  shows "r' = r\<lparr>warnings := warnings r @ job_warnings (job_id, job)\<rparr>"
proof (cases "py_truthy job")
  case False
  with assms have "warn_job ''Empty job: '' job_id r = Inr r'"
    by (simp add: check_job_def)
  from warn_job_Inr(2)[OF this] False show ?thesis
    by (simp add: job_warnings_def)
next
  case True
  with assms obtain b1 r1 b2 where
    c1: "py_contains ''runs-on'' job = Inr b1" and
    w1: "(if \<not> b1 then warn_job ''Missing runs-on in job: '' job_id r else Inr r) = Inr r1" and
    c2: "py_contains ''steps'' job = Inr b2" and
    w2: "(if \<not> b2 then warn_job ''Missing steps in job: '' job_id r1 else Inr r1) = Inr r'"
    unfolding check_job_def by (auto split: sum.splits)
  have r1: "r1 = r\<lparr>warnings := warnings r
      @ (if \<not> b1 then [''Missing runs-on in job: '' @ job_id_text job_id] else [])\<rparr>"
  proof (cases b1)
    case True
    with w1 show ?thesis by simp
  next
    case False
    with w1 have "warn_job ''Missing runs-on in job: '' job_id r = Inr r1" by simp
    from warn_job_Inr(2)[OF this] False show ?thesis by simp
  qed
  have r': "r' = r1\<lparr>warnings := warnings r1
      @ (if \<not> b2 then [''Missing steps in job: '' @ job_id_text job_id] else [])\<rparr>"
  proof (cases b2)
    case True
    with w2 show ?thesis by simp
  next
    case False
    with w2 have "warn_job ''Missing steps in job: '' job_id r1 = Inr r'" by simp
    from warn_job_Inr(2)[OF this] False show ?thesis by simp
  qed
  from True c1 c2 have "job_warnings (job_id, job) =
      (if \<not> b1 then [''Missing runs-on in job: '' @ job_id_text job_id] else [])
      @ (if \<not> b2 then [''Missing steps in job: '' @ job_id_text job_id] else [])"
    by (simp add: job_warnings_def)
  with r1 r' show ?thesis by simp
qed

lemma check_jobs_exact:
  "check_jobs js r = Inr r' \<Longrightarrow>
     r' = r\<lparr>warnings := warnings r @ concat (map job_warnings js)\<rparr>"
proof (induction js r rule: check_jobs.induct)
  case (1 r)
  then show ?case by simp
next
  case (2 job_id job rest r)
  from "2.prems" obtain r1 where
    head: "check_job job_id job r = Inr r1" and tail: "check_jobs rest r1 = Inr r'"
    by (auto split: sum.splits)
  from check_job_exact[OF head] "2.IH"[OF head tail] show ?case by simp
qed

lemma check_jobs_keeps:
  "check_jobs js r = Inr r' \<Longrightarrow>
     valid r' = valid r \<and> suggestions r' = suggestions r
     \<and> (\<exists>ws. warnings r' = warnings r @ ws)"
  by (auto dest: check_jobs_exact)

lemma check_best_practices_keeps:
  "check_best_practices d r = Inr r' \<Longrightarrow> valid r' = valid r \<and> warnings r' = warnings r"
  unfolding check_best_practices_def
  by (auto split: sum.splits if_splits simp: append_suggestion_def)

lemma check_jobs_section_keeps:
  "check_jobs_section d r = Inr r' \<Longrightarrow>
     valid r' = valid r \<and> (\<exists>ws. warnings r' = warnings r @ ws)"
  unfolding check_jobs_section_def
  by (auto split: sum.splits dest!: check_jobs_keeps check_best_practices_keeps)

text \<open>The loop over a list of items in two parts.\<close>

lemma check_jobs_append:
  "check_jobs (xs @ ys) r =
     (case check_jobs xs r of Inl e \<Rightarrow> Inl e | Inr r1 \<Rightarrow> check_jobs ys r1)"
  by (induction xs r rule: check_jobs.induct) (auto split: sum.splits)

text \<open>A job that gets a warning and does not make the loop raise has an id with a text.\<close>

lemma check_job_warned_id:
  assumes "check_job job_id job r = Inr r'" and "job_warnings (job_id, job) \<noteq> []"
  shows "py_str job_id = Inr (job_id_text job_id)"
proof (cases "py_truthy job")
  case False
  with assms(1) have "warn_job ''Empty job: '' job_id r = Inr r'"
    by (simp add: check_job_def)
  then show ?thesis by (rule warn_job_Inr(1))
next
  case True
  with assms(1) obtain b1 r1 b2 where
    c1: "py_contains ''runs-on'' job = Inr b1" and
    w1: "(if \<not> b1 then warn_job ''Missing runs-on in job: '' job_id r else Inr r) = Inr r1" and
    c2: "py_contains ''steps'' job = Inr b2" and
    w2: "(if \<not> b2 then warn_job ''Missing steps in job: '' job_id r1 else Inr r1) = Inr r'"
    unfolding check_job_def by (auto split: sum.splits)
  from True c1 c2 assms(2) have "\<not> b1 \<or> \<not> b2"
    by (auto simp: job_warnings_def)
  then show ?thesis
  proof
    assume "\<not> b1"
    with w1 have "warn_job ''Missing runs-on in job: '' job_id r = Inr r1" by simp
    then show ?thesis by (rule warn_job_Inr(1))
  next
    assume "\<not> b2"
    with w2 have "warn_job ''Missing steps in job: '' job_id r1 = Inr r'" by simp
    then show ?thesis by (rule warn_job_Inr(1))
  qed
qed

lemma check_jobs_warned_id:
  assumes "check_jobs js r = Inr r'" and "(job_id, job) \<in> set js"
    and "job_warnings (job_id, job) \<noteq> []"
  shows "py_str job_id = Inr (job_id_text job_id)"
  using assms(1,2)
proof (induction js r rule: check_jobs.induct)
  case (1 r)
  then show ?case by simp
next
  case (2 jid j rest r)
  from "2.prems"(1) obtain r1 where
    head: "check_job jid j r = Inr r1" and tail: "check_jobs rest r1 = Inr r'"
    by (auto split: sum.splits)
  show ?case
  proof (cases "(job_id, job) = (jid, j)")
    case True
    with head have "check_job job_id job r = Inr r1" by simp
    from check_job_warned_id[OF this assms(3)] show ?thesis .
  next
    case False
    with "2.prems"(2) have "(job_id, job) \<in> set rest" by auto
    from "2.IH"[OF head tail this] show ?thesis .
  qed
qed

lemma job_warnings_trigger:
  "''Missing trigger events (on:)'' \<notin> set (job_warnings item)"
  by (simp add: job_warnings_def)

lemma check_jobs_trigger_warning:
  assumes "check_jobs js r = Inr r'"
  shows "(''Missing trigger events (on:)'' \<in> set (warnings r')) =
         (''Missing trigger events (on:)'' \<in> set (warnings r))"
  using check_jobs_exact[OF assms] job_warnings_trigger by auto

text \<open>Whether the loop raises does not depend on the report it is given.\<close>

lemma warn_job_raising_independent:
  "warn_job label job_id r = Inr r' \<Longrightarrow> \<exists>r''. warn_job label' job_id r0 = Inr r''"
  unfolding warn_job_def by (auto split: sum.splits)

lemma check_job_raising_independent:
  assumes "check_job job_id job r = Inr r'"
  shows "\<exists>r''. check_job job_id job r0 = Inr r''"
proof (cases "py_truthy job")
  case False
  with assms have "warn_job ''Empty job: '' job_id r = Inr r'"
    by (simp add: check_job_def)
  from warn_job_raising_independent[OF this, of "''Empty job: ''" r0] False
  show ?thesis by (simp add: check_job_def)
next
  case True
  with assms obtain b1 r1 b2 where
    c1: "py_contains ''runs-on'' job = Inr b1" and
    w1: "(if \<not> b1 then warn_job ''Missing runs-on in job: '' job_id r else Inr r) = Inr r1" and
    c2: "py_contains ''steps'' job = Inr b2" and
    w2: "(if \<not> b2 then warn_job ''Missing steps in job: '' job_id r1 else Inr r1) = Inr r'"
    unfolding check_job_def by (auto split: sum.splits)
  from w1 obtain r1' where
    w1': "(if \<not> b1 then warn_job ''Missing runs-on in job: '' job_id r0 else Inr r0) = Inr r1'"
    by (cases b1) (auto dest: warn_job_raising_independent)
  from w2 obtain r2' where
    w2': "(if \<not> b2 then warn_job ''Missing steps in job: '' job_id r1' else Inr r1') = Inr r2'"
    by (cases b2) (auto dest: warn_job_raising_independent)
  from True c1 c2 w1' w2' show ?thesis by (simp add: check_job_def)
qed

lemma check_jobs_raising_independent:
  "check_jobs js r = Inr r' \<Longrightarrow> \<exists>r''. check_jobs js r0 = Inr r''"
proof (induction js r arbitrary: r0 rule: check_jobs.induct)
  case (1 r)
  then show ?case by simp
next
  case (2 job_id job rest r)
  from "2.prems" obtain r1 where
    head: "check_job job_id job r = Inr r1" and tail: "check_jobs rest r1 = Inr r'"
    by (auto split: sum.splits)
  from check_job_raising_independent[OF head] obtain r1' where
    head': "check_job job_id job r0 = Inr r1'" by blast
  from "2.IH"[OF head tail, of r1'] obtain r'' where "check_jobs rest r1' = Inr r''" by blast
  with head' show ?case by simp
qed

subsection \<open>The checks on a mapping\<close>

lemma header_suggestions: "suggestions (header_report kvs) = []"
  by (simp add: header_report_def initial_report_def append_warning_def Let_def)

lemma header_trigger_warning:
  "(''Missing trigger events (on:)'' \<in> set (warnings (header_report kvs))) =
     (PyStr ''on'' \<notin> fst ` set kvs \<and> PyBool True \<notin> fst ` set kvs)"
  by (auto simp: header_report_def initial_report_def append_warning_def Let_def)

lemma check_document_falsy:
  "\<not> py_truthy d \<Longrightarrow>
     check_document d =
       Inr \<lparr>valid = False, warnings = [''Empty workflow file''], suggestions = []\<rparr>"
  by (simp add: check_document_def append_warning_def)

lemma check_document_no_jobs:
  assumes "kvs \<noteq> []" "PyStr ''jobs'' \<notin> fst ` set kvs"
  shows "check_document (PyDict kvs) =
           Inr (append_warning ''Missing jobs section'' ((header_report kvs)\<lparr>valid := False\<rparr>))"
  using assms
  by (simp add: check_document_def header_report_def initial_report_def has_on_keys Let_def)

lemma check_document_jobs:
  assumes "map_of kvs (PyStr ''jobs'') = Some (PyDict jobs)"
  shows "check_document (PyDict kvs) =
           (case check_jobs jobs (header_report kvs) of
              Inl e \<Rightarrow> Inl e
            | Inr r \<Rightarrow>
                if jobs = [] then Inr r
                else (case jobs_have_checkout jobs of
                        Inl e \<Rightarrow> Inl e
                      | Inr has_checkout \<Rightarrow>
                          Inr (if has_checkout then r
                               else append_suggestion
                                 ''Consider adding actions/checkout step to access repository files''
                                 r)))"
proof -
  from assms have "(PyStr ''jobs'', PyDict jobs) \<in> set kvs"
    by (rule map_of_SomeD)
  then have mem: "PyStr ''jobs'' \<in> fst ` set kvs" and ne: "kvs \<noteq> []"
    by force+
  show ?thesis
    using assms mem ne
    by (simp add: check_document_def check_jobs_section_def check_best_practices_def
        header_report_def initial_report_def has_on_keys Let_def
        split: sum.splits)
qed

lemma check_document_jobs_mapping:
  assumes "check_document (PyDict kvs) = Inr r" and "map_of kvs (PyStr ''jobs'') = Some v"
  shows "\<exists>jobs. v = PyDict jobs"
proof -
  from assms(2) have "(PyStr ''jobs'', v) \<in> set kvs" by (rule map_of_SomeD)
  then have mem: "PyStr ''jobs'' \<in> fst ` set kvs" and ne: "kvs \<noteq> []" by force+
  from assms mem ne have "\<exists>items. py_items v = Inr items"
    by (auto simp: check_document_def check_jobs_section_def Let_def split: sum.splits)
  then show ?thesis by (cases v) (auto simp: no_attribute_def)
qed

lemma check_document_warnings:
  assumes "check_document (PyDict kvs) = Inr r"
    and "map_of kvs (PyStr ''jobs'') = Some (PyDict jobs)"
  shows "\<exists>r'. check_jobs jobs (header_report kvs) = Inr r'
           \<and> warnings r = warnings r' \<and> valid r = valid r'"
  using assms(1) unfolding check_document_jobs[OF assms(2)]
  by (auto split: sum.splits if_splits simp: append_suggestion_def)

lemma header_warnings: "warnings (header_report kvs) = top_level_warnings kvs"
  by (simp add: header_report_def initial_report_def append_warning_def top_level_warnings_def
      Let_def)

text \<open>All the warnings of a mapping document with a jobs mapping, when the checks return.\<close>

lemma check_document_exact:
  assumes "check_document (PyDict kvs) = Inr r"
    and "map_of kvs (PyStr ''jobs'') = Some (PyDict jobs)"
  shows "warnings r = top_level_warnings kvs @ concat (map job_warnings jobs)"
proof -
  from check_document_warnings[OF assms] obtain r' where
    r': "check_jobs jobs (header_report kvs) = Inr r'" "warnings r = warnings r'"
    by blast
  from check_jobs_exact[OF r'(1)] r'(2) show ?thesis
    by (simp add: header_warnings)
qed

lemma check_document_valid:
  assumes "check_document d = Inr r"
  shows "valid r = (py_truthy d \<and> (\<exists>keys. py_iter d = Inr keys \<and> has_on keys)
                     \<and> py_contains ''jobs'' d = Inr True)"
  using assms unfolding check_document_def Let_def
  by (auto split: if_splits sum.splits simp: append_warning_def dest!: check_jobs_section_keeps)

lemma check_document_Inr_truthy:
  assumes "check_document d = Inr r" and "py_truthy d"
  shows "\<exists>keys b. py_iter d = Inr keys \<and> py_contains ''jobs'' d = Inr b"
  using assms unfolding check_document_def Let_def
  by (auto split: sum.splits if_splits)

lemma check_document_trigger_warning:
  assumes "kvs \<noteq> []" and "check_document (PyDict kvs) = Inr r"
  shows "(''Missing trigger events (on:)'' \<in> set (warnings r)) =
           (PyStr ''on'' \<notin> fst ` set kvs \<and> PyBool True \<notin> fst ` set kvs)"
proof (cases "map_of kvs (PyStr ''jobs'')")
  case None
  then have "PyStr ''jobs'' \<notin> fst ` set kvs" by (simp add: map_of_eq_None_iff)
  from check_document_no_jobs[OF assms(1) this] assms(2)
  have "warnings r = warnings (header_report kvs) @ [''Missing jobs section'']"
    by (auto simp: append_warning_def)
  then show ?thesis using header_trigger_warning[of kvs] by simp
next
  case (Some v)
  from check_document_jobs_mapping[OF assms(2) Some] obtain jobs where "v = PyDict jobs" ..
  with Some have jobs: "map_of kvs (PyStr ''jobs'') = Some (PyDict jobs)" by simp
  from check_document_warnings[OF assms(2) jobs] obtain r' where
    r': "check_jobs jobs (header_report kvs) = Inr r'" "warnings r = warnings r'"
    by blast
  from check_jobs_trigger_warning[OF r'(1)] r'(2) header_trigger_warning[of kvs]
  show ?thesis by simp
qed

subsection \<open>Renaming the trigger key\<close>

lemma map_of_on_as_true:
  "k \<noteq> PyStr ''on'' \<Longrightarrow> k \<noteq> PyBool True \<Longrightarrow> map_of (on_as_true kvs) k = map_of kvs k"
  unfolding on_as_true_def by (induction kvs) auto

lemma keys_on_as_true:
  "fst ` set (on_as_true kvs) =
     (\<lambda>k. if k = PyStr ''on'' then PyBool True else k) ` fst ` set kvs"
  unfolding on_as_true_def by (auto simp: image_image)

lemma check_best_practices_on_as_true:
  "check_best_practices (PyDict (on_as_true kvs)) r = check_best_practices (PyDict kvs) r"
  by (simp add: check_best_practices_def map_of_on_as_true)

lemma check_jobs_section_on_as_true:
  "check_jobs_section (PyDict (on_as_true kvs)) r = check_jobs_section (PyDict kvs) r"
  by (simp add: check_jobs_section_def map_of_on_as_true check_best_practices_on_as_true
      cong: sum.case_cong)

lemma check_document_on_as_true:
  "check_document (PyDict (on_as_true kvs)) = check_document (PyDict kvs)"
proof -
  have k1: "(PyStr ''name'' \<in> fst ` set (on_as_true kvs)) = (PyStr ''name'' \<in> fst ` set kvs)"
    unfolding keys_on_as_true by (auto split: if_splits)
  have k2: "(PyStr ''jobs'' \<in> fst ` set (on_as_true kvs)) = (PyStr ''jobs'' \<in> fst ` set kvs)"
    unfolding keys_on_as_true by (auto split: if_splits)
  have k3: "(PyBool True \<in> fst ` set (on_as_true kvs) \<or> PyStr ''on'' \<in> fst ` set (on_as_true kvs))
      = (PyBool True \<in> fst ` set kvs \<or> PyStr ''on'' \<in> fst ` set kvs)"
    unfolding keys_on_as_true by (force split: if_splits)
  have k4: "(on_as_true kvs = []) = (kvs = [])"
    by (simp add: on_as_true_def)
  show ?thesis
    by (simp add: check_document_def check_jobs_section_on_as_true
        has_on_keys Let_def k1 k2 k3 k4 cong: sum.case_cong)
qed

subsection \<open>The scan for a checkout step\<close>

lemma py_startswith_Inr:
  "py_startswith v p = Inr b \<Longrightarrow> \<exists>s. v = Scalar (PyStr s) \<and> b = startswith s p"
  by (induction v p rule: py_startswith.induct) (auto simp: no_attribute_def)

lemma py_get_uses:
  assumes "py_get step ''uses'' (Scalar (PyStr [])) = Inr uses"
    and "py_startswith uses ''actions/checkout@'' = Inr b"
  shows "b = is_checkout_step step"
proof (cases step)
  case (PyDict skvs)
  show ?thesis
  proof (cases "map_of skvs (PyStr ''uses'')")
    case None
    with PyDict assms show ?thesis by auto
  next
    case (Some u)
    with PyDict assms have "py_startswith u ''actions/checkout@'' = Inr b" by simp
    then obtain s where "u = Scalar (PyStr s)" and "b = startswith s ''actions/checkout@''"
      by (auto dest: py_startswith_Inr)
    with PyDict Some show ?thesis by simp
  qed
qed (use assms in \<open>auto simp: no_attribute_def\<close>)

lemma steps_have_checkout_iff:
  "steps_have_checkout xs = Inr b \<Longrightarrow> b = (\<exists>s \<in> set xs. is_checkout_step s)"
proof (induction xs)
  case Nil
  then show ?case by simp
next
  case (Cons step rest)
  then show ?case
    by (auto split: sum.splits if_splits dest: py_get_uses)
qed

lemma job_steps_iter:
  assumes "py_get job ''steps'' (PyList []) = Inr steps"
    and "py_iter steps = Inr step_list"
    and "steps_have_checkout step_list = Inr b"
  shows "b = (\<exists>s \<in> set (job_steps job). is_checkout_step s)"
proof -
  have b: "b = (\<exists>s \<in> set step_list. is_checkout_step s)"
    using assms(3) by (rule steps_have_checkout_iff)
  from assms(1) obtain jkvs where job: "job = PyDict jkvs"
    by (cases job) (auto simp: no_attribute_def)
  show ?thesis
  proof (cases "map_of jkvs (PyStr ''steps'')")
    case None
    with job assms(1,2) b show ?thesis by auto
  next
    case (Some v)
    with job assms(1) have v: "steps = v" by simp
    show ?thesis
    proof (cases v)
      case (Scalar c)
      with v assms(2) have "\<forall>s \<in> set step_list. \<exists>c'. s = Scalar c'"
        by (cases c) auto
      then have "\<not> (\<exists>s \<in> set step_list. is_checkout_step s)" by auto
      with b job Some Scalar show ?thesis by simp
    next
      case (PyList xs)
      with v assms(2) b job Some show ?thesis by simp
    next
      case (PyTuple xs)
      with v assms(2) b job Some show ?thesis by simp
    next
      case (PyDict kvs)
      with v assms(2) have "\<not> (\<exists>s \<in> set step_list. is_checkout_step s)" by auto
      with b job Some PyDict show ?thesis by simp
    next
      case (PySet ks)
      with v assms(2) have "\<not> (\<exists>s \<in> set step_list. is_checkout_step s)" by auto
      with b job Some PySet show ?thesis by simp
    qed
  qed
qed

lemma jobs_have_checkout_iff:
  "jobs_have_checkout js = Inr b \<Longrightarrow>
     b = (\<exists>jj \<in> set js. \<exists>s \<in> set (job_steps (snd jj)). is_checkout_step s)"
proof (induction js rule: jobs_have_checkout.induct)
  case 1
  then show ?case by simp
next
  case (2 job_id job rest)
  from "2.prems" obtain steps step_list b' where
    g: "py_get job ''steps'' (PyList []) = Inr steps" and
    i: "py_iter steps = Inr step_list" and
    s: "steps_have_checkout step_list = Inr b'"
    by (auto split: sum.splits)
  have b': "b' = (\<exists>s \<in> set (job_steps job). is_checkout_step s)"
    using g i s by (rule job_steps_iter)
  show ?case
  proof (cases b')
    case True
    with "2.prems" g i s b' show ?thesis by auto
  next
    case False
    with "2.prems" g i s have "jobs_have_checkout rest = Inr b" by simp
    with "2.IH"[OF g i s] False
    have "b = (\<exists>jj \<in> set rest. \<exists>s \<in> set (job_steps (snd jj)). is_checkout_step s)"
      by simp
    with False b' show ?thesis by simp
  qed
qed

section \<open>The properties of the specification\<close>

subsection \<open>The validator returns\<close>

text \<open>
  C1. Whatever the parser did, returned a value or raised an exception, and whatever that
  value is, \<^verbatim>\<open>validate_workflow\<close> returns a report to its caller and raises nothing:
  every exception of the \<^verbatim>\<open>try\<close> block is caught by one of the two handlers.
\<close>

theorem validate_workflow_never_raises: "\<exists>r. validate_workflow loaded = Inr r"
  unfolding validate_workflow_def
  by (auto split: sum.splits exn.splits)

theorem validate_workflow_never_raises_witness:
  "(\<exists>r. validate_workflow (Inl (OtherException ''year 0 is out of range'')) = Inr r)
   \<and> (\<exists>r. validate_workflow (Inr (Scalar (PyInt 3))) = Inr r)"
  using validate_workflow_never_raises [of "Inl (OtherException ''year 0 is out of range'')"]
    validate_workflow_never_raises [of "Inr (Scalar (PyInt 3))"]
  by simp

subsection \<open>When the report is invalid\<close>

text \<open>
  C2, in the form that holds of the code. The \<^verbatim>\<open>valid\<close> field of the
  returned report is false exactly when the parser raised, or the parsed document is falsy, or
  one of the checks raised an exception (which the second handler reports), or iterating the
  document gives no key that is \<^verbatim>\<open>True\<close> or
  \<^verbatim>\<open>'on'\<close>, or \<^verbatim>\<open>'jobs'\<close> is not in the document.
  The name check, the checks of each job and the checkout scan do not change the field when
  they return.
\<close>

theorem valid_false_iff:
  assumes "validate_workflow loaded = Inr r"
  shows "(\<not> valid r) =
           (isl loaded \<or>
            (\<exists>d. loaded = Inr d \<and>
               (\<not> py_truthy d
                \<or> isl (check_document d)
                \<or> (\<exists>keys. py_iter d = Inr keys
                      \<and> Scalar (PyBool True) \<notin> set keys \<and> Scalar (PyStr ''on'') \<notin> set keys)
                \<or> py_contains ''jobs'' d = Inr False)))"
proof (cases loaded)
  case (Inl e)
  with assms have "\<not> valid r"
    unfolding validate_workflow_def by (cases e) auto
  with Inl show ?thesis by simp
next
  case (Inr d)
  note loaded = Inr
  show ?thesis
  proof (cases "check_document d")
    case (Inl e)
    with assms loaded have "\<not> valid r"
      by (auto simp: validate_workflow_handler)
    with Inl loaded show ?thesis by simp
  next
    case (Inr r0)
    with assms loaded have r: "r0 = r"
      by (simp add: validate_workflow_handler)
    show ?thesis
    proof (cases "py_truthy d")
      case False
      with Inr r check_document_falsy[of d] have "\<not> valid r" by auto
      with False loaded show ?thesis by simp
    next
      case True
      from check_document_Inr_truthy[OF Inr True] obtain keys b where
        kb: "py_iter d = Inr keys" "py_contains ''jobs'' d = Inr b" by blast
      from check_document_valid[OF Inr] r True kb
      have "valid r = (has_on keys \<and> b)" by simp
      with True loaded Inr kb show ?thesis
        by (auto simp: has_on_iff)
    qed
  qed
qed

theorem valid_false_iff_witness:
  "validate_workflow (Inr doc_ci) = Inr \<lparr>valid = True, warnings = [], suggestions = []\<rparr>
   \<and> py_truthy doc_ci \<and> \<not> isl (check_document doc_ci)
   \<and> (\<exists>keys. py_iter doc_ci = Inr keys \<and> Scalar (PyBool True) \<in> set keys)
   \<and> py_contains ''jobs'' doc_ci = Inr True"
proof -
  have h: "validate_workflow (Inr doc_ci) = Inr \<lparr>valid = True, warnings = [], suggestions = []\<rparr>"
    by (simp add: doc_ci_def validator_defs)
  show ?thesis
    using h valid_false_iff [OF h] by (auto simp: doc_ci_def)
qed

text \<open>
  The statement without the raised exception fails on a document whose jobs are a string: the
  document parses, is not empty, has the trigger key and the key \<^verbatim>\<open>'jobs'\<close>, and the
  report is invalid, because \<^verbatim>\<open>.items()\<close> raises on the string.
\<close>

theorem valid_false_counterexample:
  "validate_workflow (Inr doc_jobs_text) =
     Inr \<lparr>valid = False,
          warnings = [''Validation error: '' @ quoted ''str'' @ '' object has no attribute ''
                        @ quoted ''items''],
          suggestions = []\<rparr>
   \<and> py_truthy doc_jobs_text
   \<and> py_iter doc_jobs_text = Inr [Str ''name'', Scalar (PyBool True), Str ''jobs'']
   \<and> has_on [Str ''name'', Scalar (PyBool True), Str ''jobs'']
   \<and> py_contains ''jobs'' doc_jobs_text = Inr True"
  by (simp add: doc_jobs_text_def validator_defs)

subsection \<open>The warnings of a job\<close>

text \<open>
  C3, in the form that holds of the code. Take a mapping document on which the checks raise
  nothing, and in its jobs a job that is a non-empty mapping without a \<^verbatim>\<open>runs-on\<close>
  key, with the jobs \<open>before\<close> it and the jobs \<open>after\<close> it. Then the job id has a
  text, and the returned warnings are exactly: the warnings of the top-level checks, the
  warnings of the jobs before, then \<^verbatim>\<open>Missing runs-on in job: <job_id>\<close>, then
  \<^verbatim>\<open>Missing steps in job: <job_id>\<close> if and only if the job has no \<^verbatim>\<open>steps\<close>
  key either, then the warnings of the jobs after. The two checks are independent: the second
  is made whether or not the first warned. Every job of the jobs stands between some
  \<open>before\<close> and \<open>after\<close>.
\<close>

theorem runs_on_and_steps_warnings:
  assumes "check_document (PyDict kvs) = Inr r"
    and "map_of kvs (PyStr ''jobs'') = Some (PyDict (before @ (job_id, PyDict jkvs) # after))"
    and "jkvs \<noteq> []"
    and "PyStr ''runs-on'' \<notin> fst ` set jkvs"
  shows "validate_workflow (Inr (PyDict kvs)) = Inr r \<and>
         (\<exists>text. py_str job_id = Inr text \<and>
            warnings r =
              top_level_warnings kvs
              @ concat (map job_warnings before)
              @ [''Missing runs-on in job: '' @ text]
              @ (if PyStr ''steps'' \<notin> fst ` set jkvs
                 then [''Missing steps in job: '' @ text] else [])
              @ concat (map job_warnings after))"
proof -
  let ?jobs = "before @ (job_id, PyDict jkvs) # after"
  have mine: "job_warnings (job_id, PyDict jkvs) =
      [''Missing runs-on in job: '' @ job_id_text job_id]
      @ (if PyStr ''steps'' \<notin> fst ` set jkvs
         then [''Missing steps in job: '' @ job_id_text job_id] else [])"
    using assms(3,4) by (simp add: job_warnings_def)
  from check_document_warnings[OF assms(1,2)] obtain r' where
    r': "check_jobs ?jobs (header_report kvs) = Inr r'"
    by blast
  have "(job_id, PyDict jkvs) \<in> set ?jobs" by simp
  from check_jobs_warned_id[OF r' this] mine
  have has_text: "py_str job_id = Inr (job_id_text job_id)" by simp
  from check_document_exact[OF assms(1,2)] mine
  have "warnings r =
      top_level_warnings kvs
      @ concat (map job_warnings before)
      @ [''Missing runs-on in job: '' @ job_id_text job_id]
      @ (if PyStr ''steps'' \<notin> fst ` set jkvs
         then [''Missing steps in job: '' @ job_id_text job_id] else [])
      @ concat (map job_warnings after)"
    by simp
  with has_text have "\<exists>text. py_str job_id = Inr text \<and>
            warnings r =
              top_level_warnings kvs
              @ concat (map job_warnings before)
              @ [''Missing runs-on in job: '' @ text]
              @ (if PyStr ''steps'' \<notin> fst ` set jkvs
                 then [''Missing steps in job: '' @ text] else [])
              @ concat (map job_warnings after)"
    by blast
  moreover from assms(1) have "validate_workflow (Inr (PyDict kvs)) = Inr r"
    by (simp add: validate_workflow_handler)
  ultimately show ?thesis by blast
qed

text \<open>
  Two documents: a job with neither key, which gets both warnings, and a second job that has
  steps and no \<^verbatim>\<open>runs-on\<close>, which gets the first warning alone.
\<close>

theorem runs_on_and_steps_warnings_witness:
  "check_document doc_bare_job =
     Inr \<lparr>valid = True,
          warnings = [''Missing runs-on in job: build'', ''Missing steps in job: build''],
          suggestions = [''Consider adding actions/checkout step to access repository files'']\<rparr>
   \<and> check_document doc_two_jobs =
     Inr \<lparr>valid = True, warnings = [''Missing runs-on in job: build''], suggestions = []\<rparr>"
proof -
  let ?job = "[(PyStr ''timeout-minutes'', Scalar (PyInt 5))]"
  let ?kvs = "[(PyStr ''name'', Str ''CI''), (PyBool True, Str ''push''),
      (PyStr ''jobs'', PyDict [(PyStr ''build'', PyDict ?job)])]"
  let ?r = "\<lparr>valid = True,
          warnings = [''Missing runs-on in job: build'', ''Missing steps in job: build''],
          suggestions = [''Consider adding actions/checkout step to access repository files'']\<rparr>"
  have a1: "check_document (PyDict ?kvs) = Inr ?r"
    by (simp add: validator_defs)
  have a2: "map_of ?kvs (PyStr ''jobs'') = Some (PyDict ([] @ (PyStr ''build'', PyDict ?job) # []))"
    by simp
  have a3: "?job \<noteq> []" by simp
  have a4: "PyStr ''runs-on'' \<notin> fst ` set ?job" by simp
  let ?lint = "(PyStr ''lint'', PyDict
             [(PyStr ''runs-on'', Str ''ubuntu-latest''),
              (PyStr ''steps'', PyList [PyDict [(PyStr ''uses'', Str ''actions/checkout@v4'')]])])"
  let ?build = "[(PyStr ''steps'', PyList [PyDict [(PyStr ''run'', Str ''make'')]])]"
  let ?kvs2 = "[(PyStr ''name'', Str ''CI''), (PyBool True, Str ''push''),
      (PyStr ''jobs'', PyDict [?lint, (PyStr ''build'', PyDict ?build)])]"
  let ?r2 = "\<lparr>valid = True, warnings = [''Missing runs-on in job: build''], suggestions = []\<rparr>"
  have b1: "check_document (PyDict ?kvs2) = Inr ?r2"
    by (simp add: validator_defs)
  have b2: "map_of ?kvs2 (PyStr ''jobs'') =
      Some (PyDict ([?lint] @ (PyStr ''build'', PyDict ?build) # []))"
    by simp
  have b3: "?build \<noteq> []" by simp
  have b4: "PyStr ''runs-on'' \<notin> fst ` set ?build" by simp
  show ?thesis
    using a1 b1 runs_on_and_steps_warnings [OF a1 a2 a3 a4]
      runs_on_and_steps_warnings [OF b1 b2 b3 b4]
    by (simp add: doc_bare_job_def doc_two_jobs_def)
qed

text \<open>
  The job \<^verbatim>\<open>build\<close> has neither key and gets both warnings, not the first alone. And
  when a later job is a string, the scan raises on it and the returned report holds neither
  warning.
\<close>

theorem runs_on_and_steps_counterexample:
  "validate_workflow (Inr doc_bare_job) =
     Inr \<lparr>valid = True,
          warnings = [''Missing runs-on in job: build'', ''Missing steps in job: build''],
          suggestions = [''Consider adding actions/checkout step to access repository files'']\<rparr>
   \<and> validate_workflow (Inr doc_bare_and_text_job) =
     Inr \<lparr>valid = False,
          warnings = [''Validation error: '' @ quoted ''str''
                        @ '' object has no attribute '' @ quoted ''get''],
          suggestions = []\<rparr>"
  by (simp add: doc_bare_job_def doc_bare_and_text_job_def validator_defs)

subsection \<open>A job with nothing under it\<close>

text \<open>
  C4. A job that has no value is loaded as \<^verbatim>\<open>None\<close>. The loop over the jobs gives it the
  warning \<^verbatim>\<open>Empty job: build\<close> and goes on, but the scan for a checkout step then calls
  \<^verbatim>\<open>job.get\<close> on that \<^verbatim>\<open>None\<close>: the report that is returned is invalid and holds the
  message of the exception in place of the warning.
\<close>

theorem null_job_report:
  "validate_workflow (Inr doc_null_job) =
     Inr \<lparr>valid = False,
          warnings = [''Validation error: '' @ quoted ''NoneType''
                        @ '' object has no attribute '' @ quoted ''get''],
          suggestions = []\<rparr>
   \<and> check_jobs [(PyStr ''build'', Scalar PyNone)]
        \<lparr>valid = True, warnings = [], suggestions = []\<rparr> =
       Inr \<lparr>valid = True, warnings = [''Empty job: build''], suggestions = []\<rparr>"
  by (simp add: doc_null_job_def validator_defs)

text \<open>
  What holds of an empty job when the scan raises nothing (for one, when every job is a
  mapping): its warning is in the returned report.
\<close>

lemma empty_job_warning:
  assumes "check_document (PyDict kvs) = Inr r"
    and "map_of kvs (PyStr ''jobs'') = Some (PyDict jobs)"
    and "(job_id, job) \<in> set jobs"
    and "\<not> py_truthy job"
  shows "''Empty job: '' @ job_id_text job_id \<in> set (warnings r)"
proof -
  from assms(4) have "job_warnings (job_id, job) = [''Empty job: '' @ job_id_text job_id]"
    by (simp add: job_warnings_def)
  with assms(3) have "''Empty job: '' @ job_id_text job_id \<in> set (concat (map job_warnings jobs))"
    by force
  with check_document_exact[OF assms(1,2)] show ?thesis by simp
qed

text \<open>
  An int job id of more than 4300 digits: the f-string of the first warning for the job raises,
  and the report is the one of the second handler.
\<close>

lemma huge_job_id_report:
  assumes "10 ^ int_max_str_digits \<le> abs i"
  shows "validate_workflow
           (Inr (PyDict [(PyBool True, Str ''push''),
                         (PyStr ''jobs'', PyDict [(PyInt i, PyDict [])])])) =
         Inr \<lparr>valid = False,
              warnings = [''Validation error: Exceeds the limit (4300 digits) for integer ''
                            @ ''string conversion; use sys.set_int_max_str_digits() to ''
                            @ ''increase the limit''],
              suggestions = []\<rparr>"
  using assms by (simp add: validator_defs)

subsection \<open>The trigger events\<close>

text \<open>
  C5, in the form that holds of the code. For a mapping document that is not empty: the loop
  over the keys finds a trigger exactly when some key is \<^verbatim>\<open>'on'\<close> or
  \<^verbatim>\<open>True\<close>; when neither is a key the returned report is invalid; when
  the checks raise nothing, the warning \<^verbatim>\<open>Missing trigger events (on:)\<close>
  is in the returned warnings exactly when neither is a key; and the two keys are treated
  alike: replacing every key \<^verbatim>\<open>'on'\<close> by \<^verbatim>\<open>True\<close>
  changes nothing in what is returned.
\<close>

theorem trigger_events_presence:
  assumes "kvs \<noteq> []"
  shows "((\<exists>keys. py_iter (PyDict kvs) = Inr keys \<and> has_on keys) =
            (PyStr ''on'' \<in> fst ` set kvs \<or> PyBool True \<in> fst ` set kvs))
       \<and> (PyStr ''on'' \<notin> fst ` set kvs \<and> PyBool True \<notin> fst ` set kvs \<longrightarrow>
            (\<exists>r. validate_workflow (Inr (PyDict kvs)) = Inr r \<and> \<not> valid r))
       \<and> (\<forall>r. check_document (PyDict kvs) = Inr r \<longrightarrow>
            (''Missing trigger events (on:)'' \<in> set (warnings r)) =
            (PyStr ''on'' \<notin> fst ` set kvs \<and> PyBool True \<notin> fst ` set kvs))
       \<and> validate_workflow (Inr (PyDict (on_as_true kvs))) = validate_workflow (Inr (PyDict kvs))"
proof -
  have presence: "(\<exists>keys. py_iter (PyDict kvs) = Inr keys \<and> has_on keys) =
           (PyStr ''on'' \<in> fst ` set kvs \<or> PyBool True \<in> fst ` set kvs)"
    by (auto simp: has_on_keys)
  have invalid: "PyStr ''on'' \<notin> fst ` set kvs \<and> PyBool True \<notin> fst ` set kvs \<longrightarrow>
           (\<exists>r. validate_workflow (Inr (PyDict kvs)) = Inr r \<and> \<not> valid r)"
  proof
    assume absent: "PyStr ''on'' \<notin> fst ` set kvs \<and> PyBool True \<notin> fst ` set kvs"
    show "\<exists>r. validate_workflow (Inr (PyDict kvs)) = Inr r \<and> \<not> valid r"
    proof (cases "check_document (PyDict kvs)")
      case (Inl e)
      then show ?thesis by (simp add: validate_workflow_handler)
    next
      case (Inr r)
      from check_document_valid[OF Inr] presence absent have "\<not> valid r" by auto
      with Inr show ?thesis by (simp add: validate_workflow_handler)
    qed
  qed
  have warning: "\<forall>r. check_document (PyDict kvs) = Inr r \<longrightarrow>
           (''Missing trigger events (on:)'' \<in> set (warnings r)) =
           (PyStr ''on'' \<notin> fst ` set kvs \<and> PyBool True \<notin> fst ` set kvs)"
    using check_document_trigger_warning[OF assms] by blast
  have alike: "validate_workflow (Inr (PyDict (on_as_true kvs))) =
      validate_workflow (Inr (PyDict kvs))"
    by (simp add: validate_workflow_handler check_document_on_as_true)
  from presence invalid warning alike show ?thesis by blast
qed

theorem trigger_events_presence_witness:
  "validate_workflow (Inr doc_description_only) =
     Inr \<lparr>valid = False,
          warnings = [''Missing workflow name'', ''Missing trigger events (on:)'',
                      ''Missing jobs section''],
          suggestions = []\<rparr>
   \<and> validate_workflow (Inr (PyDict (on_as_true [(PyStr ''on'', Str ''push'')]))) =
     validate_workflow (Inr (PyDict [(PyStr ''on'', Str ''push'')]))
   \<and> validate_workflow (Inr (PyDict [(PyStr ''on'', Str ''push'')])) =
     Inr \<lparr>valid = False,
          warnings = [''Missing workflow name'', ''Missing jobs section''],
          suggestions = []\<rparr>"
proof -
  have h1: "[(PyStr ''description'', Str ''demo'')] \<noteq> []" by simp
  have h2: "[(PyStr ''on'', Str ''push'')] \<noteq> []" by simp
  have e1: "check_document (PyDict [(PyStr ''description'', Str ''demo'')]) =
     Inr \<lparr>valid = False,
          warnings = [''Missing workflow name'', ''Missing trigger events (on:)'',
                      ''Missing jobs section''],
          suggestions = []\<rparr>"
    by (simp add: validator_defs)
  have e2: "check_document (PyDict [(PyStr ''on'', Str ''push'')]) =
     Inr \<lparr>valid = False,
          warnings = [''Missing workflow name'', ''Missing jobs section''],
          suggestions = []\<rparr>"
    by (simp add: validator_defs)
  show ?thesis
    using e1 e2 trigger_events_presence [OF h1] trigger_events_presence [OF h2]
    by (simp add: doc_description_only_def validate_workflow_handler)
qed

text \<open>
  The empty mapping has neither key, and its report does not hold the warning: the check for
  an empty document returns before the keys are looked at. And when the jobs are a string the
  warning is appended and then lost with the report, which the handler replaces.
\<close>

theorem trigger_events_counterexample:
  "validate_workflow (Inr (PyDict [])) =
     Inr \<lparr>valid = False, warnings = [''Empty workflow file''], suggestions = []\<rparr>
   \<and> py_iter (PyDict []) = Inr []
   \<and> validate_workflow (Inr doc_only_jobs_text) =
     Inr \<lparr>valid = False,
          warnings = [''Validation error: '' @ quoted ''str'' @ '' object has no attribute ''
                        @ quoted ''items''],
          suggestions = []\<rparr>
   \<and> py_iter doc_only_jobs_text = Inr [Str ''jobs'']"
  by (simp add: doc_only_jobs_text_def validator_defs)

subsection \<open>A text that is not YAML\<close>

text \<open>
  C6. When the parser raises a \<^verbatim>\<open>yaml.YAMLError\<close>, the report is invalid, its only
  warning is \<^verbatim>\<open>Invalid YAML: \<close> followed by the text of the error, which therefore
  contains \<^verbatim>\<open>Invalid YAML\<close>, and it has no suggestion; nothing else is checked.
\<close>

theorem invalid_yaml_report:
  "validate_workflow (Inl (YAMLError m)) =
     Inr \<lparr>valid = False, warnings = [''Invalid YAML: '' @ m], suggestions = []\<rparr>
   \<and> str_contains ''Invalid YAML'' (''Invalid YAML: '' @ m)"
  by (simp add: validate_workflow_def)

theorem invalid_yaml_report_witness:
  "validate_workflow (Inl (YAMLError ''while parsing a flow sequence'')) =
     Inr \<lparr>valid = False, warnings = [''Invalid YAML: while parsing a flow sequence''],
          suggestions = []\<rparr>"
  using invalid_yaml_report [of "''while parsing a flow sequence''"] by simp

subsection \<open>A document with no name, no trigger and no jobs\<close>

text \<open>
  C7, in the form that holds of the code. For a mapping document that is not empty and has none
  of the keys \<^verbatim>\<open>'name'\<close>, \<^verbatim>\<open>'on'\<close>,
  \<^verbatim>\<open>True\<close> and \<^verbatim>\<open>'jobs'\<close>, the report is invalid
  and its warnings are exactly \<^verbatim>\<open>Missing workflow name\<close>,
  \<^verbatim>\<open>Missing trigger events (on:)\<close> and \<^verbatim>\<open>Missing jobs
  section\<close>, in this order, with no suggestion: no job is checked.
\<close>

theorem missing_everything_report:
  assumes "kvs \<noteq> []"
    and "PyStr ''name'' \<notin> fst ` set kvs"
    and "PyStr ''on'' \<notin> fst ` set kvs" and "PyBool True \<notin> fst ` set kvs"
    and "PyStr ''jobs'' \<notin> fst ` set kvs"
  shows "validate_workflow (Inr (PyDict kvs)) =
           Inr \<lparr>valid = False,
                warnings = [''Missing workflow name'', ''Missing trigger events (on:)'',
                            ''Missing jobs section''],
                suggestions = []\<rparr>"
  using assms
  by (simp add: validate_workflow_handler check_document_no_jobs header_report_def
      initial_report_def append_warning_def)

theorem missing_everything_report_witness:
  "validate_workflow (Inr doc_description_only) =
           Inr \<lparr>valid = False,
                warnings = [''Missing workflow name'', ''Missing trigger events (on:)'',
                            ''Missing jobs section''],
                suggestions = []\<rparr>"
  using missing_everything_report [of "[(PyStr ''description'', Str ''demo'')]"]
  by (simp add: doc_description_only_def)

text \<open>
  The empty mapping has none of the keys either, and its report holds one other warning.
\<close>

theorem missing_everything_counterexample:
  "validate_workflow (Inr (PyDict [])) =
     Inr \<lparr>valid = False, warnings = [''Empty workflow file''], suggestions = []\<rparr>
   \<and> py_contains ''name'' (PyDict []) = Inr False
   \<and> py_contains ''jobs'' (PyDict []) = Inr False
   \<and> \<not> has_on []"
  by (simp add: validator_defs)

subsection \<open>The checkout suggestion\<close>

text \<open>
  C8, in the form that holds of the code. When the checks of a mapping document with a
  non-empty jobs mapping raise nothing, the suggestions are empty if some step of some job is a
  checkout step, and are the one suggestion \<^verbatim>\<open>Consider adding actions/checkout
  step to access repository files\<close> otherwise.
\<close>

theorem checkout_suggestion:
  assumes "check_document (PyDict kvs) = Inr r"
    and "map_of kvs (PyStr ''jobs'') = Some (PyDict jobs)"
    and "jobs \<noteq> []"
  shows "validate_workflow (Inr (PyDict kvs)) = Inr r \<and>
         suggestions r =
           (if \<exists>jj \<in> set jobs. \<exists>s \<in> set (job_steps (snd jj)). is_checkout_step s
            then []
            else [''Consider adding actions/checkout step to access repository files''])"
proof -
  from assms(1,3) obtain r' b where
    r': "check_jobs jobs (header_report kvs) = Inr r'" and
    b: "jobs_have_checkout jobs = Inr b" and
    r: "r = (if b then r'
             else append_suggestion
               ''Consider adding actions/checkout step to access repository files'' r')"
    unfolding check_document_jobs[OF assms(2)]
    by (auto split: sum.splits if_splits)
  from check_jobs_keeps[OF r'] have "suggestions r' = []"
    by (simp add: header_suggestions)
  with r have "suggestions r =
      (if b then [] else [''Consider adding actions/checkout step to access repository files''])"
    by (simp add: append_suggestion_def)
  moreover from jobs_have_checkout_iff[OF b]
  have "b = (\<exists>jj \<in> set jobs. \<exists>s \<in> set (job_steps (snd jj)). is_checkout_step s)" .
  moreover from assms(1) have "validate_workflow (Inr (PyDict kvs)) = Inr r"
    by (simp add: validate_workflow_handler)
  ultimately show ?thesis by simp
qed

theorem checkout_suggestion_witness:
  "check_document doc_no_checkout =
     Inr \<lparr>valid = True, warnings = [],
          suggestions = [''Consider adding actions/checkout step to access repository files'']\<rparr>
   \<and> check_document doc_ci = Inr \<lparr>valid = True, warnings = [], suggestions = []\<rparr>
   \<and> is_checkout_step (PyDict [(PyStr ''uses'', Str ''actions/checkout@v3'')])
   \<and> \<not> is_checkout_step (PyDict [(PyStr ''run'', Str ''echo hi'')])"
proof -
  let ?job1 = "PyDict
             [(PyStr ''runs-on'', Str ''ubuntu-latest''),
              (PyStr ''steps'', PyList [PyDict [(PyStr ''run'', Str ''echo hi'')]])]"
  let ?kvs1 = "[(PyStr ''name'', Str ''CI''),
      (PyBool True, PyDict [(PyStr ''push'', PyDict [(PyStr ''branches'', PyList [Str ''main''])])]),
      (PyStr ''jobs'', PyDict [(PyStr ''build'', ?job1)])]"
  let ?job2 = "PyDict
             [(PyStr ''runs-on'', Str ''ubuntu-latest''),
              (PyStr ''steps'', PyList
                 [PyDict [(PyStr ''uses'', Str ''actions/checkout@v3'')],
                  PyDict [(PyStr ''run'', Str ''echo hi'')]])]"
  let ?kvs2 = "[(PyStr ''name'', Str ''CI''),
      (PyBool True, PyDict [(PyStr ''push'', PyDict [(PyStr ''branches'', PyList [Str ''main''])])]),
      (PyStr ''jobs'', PyDict [(PyStr ''build'', ?job2)])]"
  have a1: "check_document (PyDict ?kvs1) =
     Inr \<lparr>valid = True, warnings = [],
          suggestions = [''Consider adding actions/checkout step to access repository files'']\<rparr>"
    by (simp add: validator_defs)
  have a2: "map_of ?kvs1 (PyStr ''jobs'') = Some (PyDict [(PyStr ''build'', ?job1)])" by simp
  have a3: "[(PyStr ''build'', ?job1)] \<noteq> []" by simp
  have b1: "check_document (PyDict ?kvs2) = Inr \<lparr>valid = True, warnings = [], suggestions = []\<rparr>"
    by (simp add: validator_defs)
  have b2: "map_of ?kvs2 (PyStr ''jobs'') = Some (PyDict [(PyStr ''build'', ?job2)])" by simp
  have b3: "[(PyStr ''build'', ?job2)] \<noteq> []" by simp
  show ?thesis
    using a1 b1 checkout_suggestion [OF a1 a2 a3] checkout_suggestion [OF b1 b2 b3]
    by (simp add: doc_no_checkout_def doc_ci_def)
qed

text \<open>
  Without the condition on the checks the statement fails on a job that is a string: the job
  has no step at all, and the report has no suggestion, because the scan raised on the job.
\<close>

theorem checkout_suggestion_counterexample:
  "validate_workflow (Inr doc_text_job) =
     Inr \<lparr>valid = False,
          warnings = [''Validation error: '' @ quoted ''str''
                        @ '' object has no attribute '' @ quoted ''get''],
          suggestions = []\<rparr>
   \<and> job_steps (Str ''hello'') = []"
  by (simp add: doc_text_job_def validator_defs)

subsection \<open>A job that is not a mapping\<close>

text \<open>
  C9. When the first job of a mapping document is not a mapping (it is \<^verbatim>\<open>None\<close>, a
  string, anything else), the checks raise: the returned report is invalid, its only warning
  is \<^verbatim>\<open>Validation error: \<close> followed by the text of the exception, and it has no
  suggestion, so that no warning of the earlier checks is left in it. When the loop over the
  jobs raised nothing, the exception is the one of \<^verbatim>\<open>job.get\<close> in the scan.
\<close>

theorem first_job_not_mapping:
  assumes "map_of kvs (PyStr ''jobs'') = Some (PyDict ((job_id, job) # rest))"
    and "\<forall>jkvs. job \<noteq> PyDict jkvs"
  shows "\<exists>e. check_document (PyDict kvs) = Inl e
           \<and> validate_workflow (Inr (PyDict kvs)) =
               Inr \<lparr>valid = False, warnings = [''Validation error: '' @ exn_str e],
                    suggestions = []\<rparr>
           \<and> ((\<exists>r r'. check_jobs ((job_id, job) # rest) r = Inr r')
                \<longrightarrow> e = no_attribute job ''get'')"
proof -
  from assms(2) have scan:
    "jobs_have_checkout ((job_id, job) # rest) = Inl (no_attribute job ''get'')"
    by (cases job) auto
  show ?thesis
  proof (cases "check_jobs ((job_id, job) # rest) (header_report kvs)")
    case (Inl e)
    then have doc: "check_document (PyDict kvs) = Inl e"
      unfolding check_document_jobs[OF assms(1)] by simp
    have "\<not> (\<exists>r r'. check_jobs ((job_id, job) # rest) r = Inr r')"
    proof
      assume "\<exists>r r'. check_jobs ((job_id, job) # rest) r = Inr r'"
      then obtain r r' where "check_jobs ((job_id, job) # rest) r = Inr r'" by blast
      from check_jobs_raising_independent[OF this, of "header_report kvs"] Inl
      show False by simp
    qed
    with doc show ?thesis by (simp add: validate_workflow_handler)
  next
    case (Inr r1)
    with scan have "check_document (PyDict kvs) = Inl (no_attribute job ''get'')"
      unfolding check_document_jobs[OF assms(1)] by simp
    then show ?thesis by (simp add: validate_workflow_handler)
  qed
qed

text \<open>
  On the document with no name and a job with nothing under it, the warnings
  \<^verbatim>\<open>Missing workflow name\<close> and \<^verbatim>\<open>Empty job: build\<close> are what the loop over the jobs
  leaves, and neither is returned.
\<close>

theorem first_job_not_mapping_witness:
  "validate_workflow (Inr doc_unnamed_null_job) =
     Inr \<lparr>valid = False,
          warnings = [''Validation error: '' @ quoted ''NoneType''
                        @ '' object has no attribute '' @ quoted ''get''],
          suggestions = []\<rparr>
   \<and> check_jobs [(PyStr ''build'', Scalar PyNone)]
        \<lparr>valid = True, warnings = [''Missing workflow name''], suggestions = []\<rparr> =
       Inr \<lparr>valid = True, warnings = [''Missing workflow name'', ''Empty job: build''],
            suggestions = []\<rparr>"
proof -
  let ?kvs = "[(PyBool True, Str ''push''),
      (PyStr ''jobs'', PyDict [(PyStr ''build'', Scalar PyNone)])]"
  have h1: "map_of ?kvs (PyStr ''jobs'') = Some (PyDict ((PyStr ''build'', Scalar PyNone) # []))"
    by simp
  have h2: "\<forall>jkvs. Scalar PyNone \<noteq> PyDict jkvs" by simp
  have h3: "check_jobs [(PyStr ''build'', Scalar PyNone)]
        \<lparr>valid = True, warnings = [''Missing workflow name''], suggestions = []\<rparr> =
       Inr \<lparr>valid = True, warnings = [''Missing workflow name'', ''Empty job: build''],
            suggestions = []\<rparr>"
    by (simp add: check_job_def warn_job_def append_warning_def)
  from first_job_not_mapping [OF h1 h2] obtain e where
    e: "validate_workflow (Inr (PyDict ?kvs)) =
               Inr \<lparr>valid = False, warnings = [''Validation error: '' @ exn_str e],
                    suggestions = []\<rparr>"
       "(\<exists>r r'. check_jobs [(PyStr ''build'', Scalar PyNone)] r = Inr r')
                \<longrightarrow> e = no_attribute (Scalar PyNone) ''get''"
    by blast
  from e(2) h3 have "e = no_attribute (Scalar PyNone) ''get''" by blast
  with e(1) h3 show ?thesis
    by (simp add: doc_unnamed_null_job_def no_attribute_def)
qed

subsection \<open>A document that is falsy\<close>

text \<open>
  C10. The test for an empty document is Python's truth value, not a comparison with
  \<^verbatim>\<open>None\<close>: for every falsy document, among them \<^verbatim>\<open>False\<close>, \<^verbatim>\<open>0\<close>, the empty
  mapping and the empty sequence, the report is invalid with the one warning
  \<^verbatim>\<open>Empty workflow file\<close> and no suggestion, the same report as for \<^verbatim>\<open>None\<close>.
\<close>

theorem falsy_document_report:
  assumes "\<not> py_truthy d"
  shows "validate_workflow (Inr d) =
           Inr \<lparr>valid = False, warnings = [''Empty workflow file''], suggestions = []\<rparr>
         \<and> validate_workflow (Inr d) = validate_workflow (Inr (Scalar PyNone))"
  using assms by (simp add: validate_workflow_handler check_document_falsy)

theorem falsy_document_report_witness:
  "validate_workflow (Inr (Scalar (PyBool False))) =
     Inr \<lparr>valid = False, warnings = [''Empty workflow file''], suggestions = []\<rparr>
   \<and> validate_workflow (Inr (Scalar (PyInt 0))) =
     Inr \<lparr>valid = False, warnings = [''Empty workflow file''], suggestions = []\<rparr>
   \<and> validate_workflow (Inr (PyDict [])) =
     Inr \<lparr>valid = False, warnings = [''Empty workflow file''], suggestions = []\<rparr>
   \<and> validate_workflow (Inr (PyList [])) =
     Inr \<lparr>valid = False, warnings = [''Empty workflow file''], suggestions = []\<rparr>"
  using falsy_document_report [of "Scalar (PyBool False)"]
    falsy_document_report [of "Scalar (PyInt 0)"]
    falsy_document_report [of "PyDict []"]
    falsy_document_report [of "PyList []"]
  by simp

end
